theory Spec2Isabelle
  imports Main
begin

section \<open>Lottie animation loading and frame pacing (lottie\_animation.cpp)\<close>

text \<open>
  A shallow embedding of \<^verbatim>\<open>Telegram/SourceFiles/lottie/lottie_animation.cpp\<close>.
  Byte buffers (\<^verbatim>\<open>QByteArray\<close>, \<^verbatim>\<open>std::string\<close>) are \<open>string\<close>, that is lists of
  8-bit characters. A failed \<^verbatim>\<open>Expects\<close> or \<^verbatim>\<open>Assert\<close> terminates the process; a
  function that contains one returns an \<open>option\<close>, with \<open>None\<close> for that termination.
\<close>

subsection \<open>Types declared in the headers\<close>

datatype Error = ParseFailed | NotSupported

text \<open>\<^verbatim>\<open>QSize\<close>: a width and a height; \<^verbatim>\<open>isEmpty\<close> is Qt's.\<close>

record QSize =
  width :: int
  height :: int

definition isEmpty :: "QSize \<Rightarrow> bool" where
  "isEmpty sz = (width sz \<le> 0 \<or> height sz \<le> 0)"

text \<open>
  \<^verbatim>\<open>Information\<close>: the struct is declared in a header. The source tests
  \<^verbatim>\<open>framesCount <= 0\<close>, so the counters are taken as the signed \<^verbatim>\<open>int\<close> of C++; whether a
  frame rate below 0 can occur is decided outside this file.
\<close>

record Information =
  frameRate :: int
  framesCount :: int
  size :: QSize

text \<open>Opaque values: a frame request, a handle of the decode library, an image.\<close>

datatype FrameRequest = FrameRequest nat

datatype rlottie_Animation = rlottie_Animation nat

datatype QImage = QImage_null | QImage_data nat

record Frame =
  original :: QImage
  request :: FrameRequest

text \<open>\<^verbatim>\<open>Cache\<close>: only the two counters that \<^verbatim>\<open>Init\<close> reads.\<close>

record Cache =
  cache_framesCount :: int
  cache_framesReady :: int

text \<open>\<^verbatim>\<open>QFile\<close> as the three calls of \<^verbatim>\<open>ReadFile\<close> see it.\<close>

record QFile =
  file_size :: int
  file_open :: bool
  file_readAll :: string

subsection \<open>Collaborators\<close>

text \<open>
  Everything the file calls but does not define is a field of the environment: the
  constants of the header, zlib, the decode library, and the constructors and methods of
  \<^verbatim>\<open>Cache\<close> and \<^verbatim>\<open>SharedState\<close> (type \<open>'s\<close>).

  \<open>inflate_call\<close> is one call of zlib's \<^verbatim>\<open>inflate\<close>: from the pending input and the
  free output space it gives the return code, the number of input bytes consumed and
  the bytes produced.
\<close>

record 's env =
  kMaxFileSize :: nat
  kTimeUnknown :: int
  inflateInit2 :: int
  inflate_call :: "string \<Rightarrow> nat \<Rightarrow> int \<times> nat \<times> string"
  loadFromData :: "string \<Rightarrow> rlottie_Animation option"
  Cache_new :: "string \<Rightarrow> FrameRequest \<Rightarrow> Cache"
  SharedState_new :: "rlottie_Animation \<Rightarrow> FrameRequest \<Rightarrow> 's"
  SharedState_cached :: "string \<Rightarrow> rlottie_Animation option \<Rightarrow> Cache \<Rightarrow> FrameRequest \<Rightarrow> 's"
  information :: "'s \<Rightarrow> Information"
  frameForPaint :: "'s \<Rightarrow> Frame"
  state_start :: "'s \<Rightarrow> int \<Rightarrow> 's"
  state_markFrameDisplayed :: "'s \<Rightarrow> int \<Rightarrow> int \<times> 's"
  state_nextFrameDisplayTime :: "'s \<Rightarrow> int"

text \<open>The two return codes of zlib.h that the source names.\<close>

definition Z_OK :: int where
  "Z_OK = 0"

definition Z_STREAM_END :: int where
  "Z_STREAM_END = 1"

subsection \<open>UnpackGzip\<close>

record z_stream =
  avail_in :: nat
  next_in :: string
  avail_out :: nat

text \<open>
  \<^verbatim>\<open>inflate(&stream, Z_NO_FLUSH)\<close> with \<^verbatim>\<open>next_out\<close> at the start of the buffer \<open>buf\<close>:
  zlib consumes at most \<^verbatim>\<open>avail_in\<close> bytes and writes at most \<^verbatim>\<open>avail_out\<close> bytes, and
  decreases both counters by what it used.
\<close>

definition inflate :: "'s env \<Rightarrow> z_stream \<Rightarrow> string \<Rightarrow> int \<times> z_stream \<times> string" where
  "inflate e stream buf =
     (case inflate_call e (next_in stream) (avail_out stream) of
        (res, used, out) \<Rightarrow>
          let used' = min used (avail_in stream);
              out' = take (min (avail_out stream) (length buf)) out
          in (res,
              stream\<lparr>avail_in := avail_in stream - used',
                     next_in := drop used' (next_in stream),
                     avail_out := avail_out stream - length out'\<rparr>,
              out' @ drop (length out') buf))"

datatype loop_exit = ReturnOriginal | LoopDone z_stream string

function unpack_loop :: "'s env \<Rightarrow> z_stream \<Rightarrow> string \<Rightarrow> loop_exit" where
  "unpack_loop e stream result =
     (if avail_out stream \<noteq> 0 then LoopDone stream result
      else
        (case inflate e (stream\<lparr>avail_out := length result\<rparr>) result of
           (res, stream', result') \<Rightarrow>
             if res \<noteq> Z_OK \<and> res \<noteq> Z_STREAM_END then ReturnOriginal
             else if avail_out stream' = 0 then ReturnOriginal
             else unpack_loop e stream' result'))"
  by pat_completeness auto
termination
  by (relation "measure (\<lambda>(e, stream, result). if avail_out stream = 0 then 1 else 0)")
     auto

definition UnpackGzip :: "'s env \<Rightarrow> string \<Rightarrow> string" where
  "UnpackGzip e bytes =
     (if inflateInit2 e \<noteq> Z_OK then bytes
      else
        let result = replicate (kMaxFileSize e + 1) (CHR 0x00);
            stream = \<lparr>avail_in = length bytes, next_in = bytes, avail_out = 0\<rparr>
        in case unpack_loop e stream result of
             ReturnOriginal \<Rightarrow> bytes
           | LoopDone stream' result' \<Rightarrow>
               take (length result' - avail_out stream') result')"

subsection \<open>ReadFile, ReadContent\<close>

definition ReadFile :: "'s env \<Rightarrow> (string \<Rightarrow> QFile) \<Rightarrow> string \<Rightarrow> string" where
  "ReadFile e fs filepath =
     (let f = fs filepath
      in if file_size f \<le> int (kMaxFileSize e) \<and> file_open f
         then file_readAll f else [])"

definition ReadContent :: "'s env \<Rightarrow> (string \<Rightarrow> QFile) \<Rightarrow> string \<Rightarrow> string \<Rightarrow> string" where
  "ReadContent e fs data filepath =
     (if data = [] then ReadFile e fs filepath else data)"

subsection \<open>ContentError, CheckSharedState, CreateFromContent, Init\<close>

definition ContentError :: "'s env \<Rightarrow> string \<Rightarrow> Error option" where
  "ContentError e content =
     (if length content > kMaxFileSize e then Some ParseFailed else None)"

datatype 's InitData = InitState 's | InitError Error

text \<open>The argument is a \<^verbatim>\<open>unique_ptr\<close>: \<open>None\<close> is the null pointer.\<close>

definition CheckSharedState :: "'s env \<Rightarrow> 's option \<Rightarrow> 's InitData option" where
  "CheckSharedState e state =
     (case state of
        None \<Rightarrow> None
      | Some st \<Rightarrow>
          let info = information e st
          in if frameRate info = 0 \<or> framesCount info \<le> 0 \<or> isEmpty (size info)
             then Some (InitError NotSupported)
             else Some (InitState st))"

text \<open>
  The calls of the decode library are counted in a log: every function that may reach
  \<^verbatim>\<open>rlottie::Animation::loadFromData\<close> takes the log and returns it with the strings it
  passed, oldest first.
\<close>

definition CreateFromContent ::
  "'s env \<Rightarrow> string \<Rightarrow> string list \<Rightarrow> (rlottie_Animation option \<times> string list) option" where
  "CreateFromContent e content calls =
     (let str = UnpackGzip e content
      in if \<not> length str \<le> kMaxFileSize e then None
         else Some (loadFromData e str, calls @ [str]))"

definition Init ::
  "'s env \<Rightarrow> string \<Rightarrow> FrameRequest \<Rightarrow> string list \<Rightarrow> ('s InitData \<times> string list) option" where
  "Init e content req calls =
     (case ContentError e content of
        Some error \<Rightarrow> Some (InitError error, calls)
      | None \<Rightarrow>
          (case CreateFromContent e content calls of
             None \<Rightarrow> None
           | Some (animation, calls') \<Rightarrow>
               (case animation of
                  Some a \<Rightarrow>
                    map_option (\<lambda>d. (d, calls'))
                      (CheckSharedState e (Some (SharedState_new e a req)))
                | None \<Rightarrow> Some (InitError ParseFailed, calls'))))"

definition InitCached ::
  "'s env \<Rightarrow> string \<Rightarrow> string \<Rightarrow> FrameRequest \<Rightarrow> string list
     \<Rightarrow> ('s InitData \<times> string list) option" where
  "InitCached e content cached req calls =
     (case ContentError e content of
        Some error \<Rightarrow> Some (InitError error, calls)
      | None \<Rightarrow>
          let cache = Cache_new e cached req;
              prepare = (cache_framesCount cache = 0
                         \<or> cache_framesReady cache < cache_framesCount cache)
          in (case (if prepare then CreateFromContent e content calls
                    else Some (None, calls)) of
                None \<Rightarrow> None
              | Some (animation, calls') \<Rightarrow>
                  if \<not> prepare \<or> animation \<noteq> None
                  then map_option (\<lambda>d. (d, calls'))
                         (CheckSharedState e
                            (Some (SharedState_cached e content animation cache req)))
                  else Some (InitError ParseFailed, calls')))"

subsection \<open>ReadThumbnail\<close>

definition ReadThumbnail :: "'s env \<Rightarrow> FrameRequest \<Rightarrow> string \<Rightarrow> string list
    \<Rightarrow> (QImage \<times> string list) option" where
  "ReadThumbnail e default_request content calls =
     (case Init e content default_request calls of
        None \<Rightarrow> None
      | Some (InitState state, calls') \<Rightarrow> Some (original (frameForPaint e state), calls')
      | Some (InitError error, calls') \<Rightarrow> Some (QImage_null, calls'))"

subsection \<open>The Animation object\<close>

text \<open>
  What \<^verbatim>\<open>_updates\<close> has fired, oldest first: \<^verbatim>\<open>fire\<close> of an \<^verbatim>\<open>Update\<close> (the
  information, or a \<^verbatim>\<open>DisplayFrameRequest\<close> with its position) and \<^verbatim>\<open>fire_error\<close>.
\<close>

datatype Update = InformationReady Information | DisplayFrameRequest int

datatype event = Fire Update | FireError Error

text \<open>
  The members the modelled methods touch. \<open>timer\<close> is \<^verbatim>\<open>_timer\<close>: \<open>None\<close> when it is not
  active, \<open>Some d\<close> when \<^verbatim>\<open>callOnce(d)\<close> armed it. \<open>state\<close> is the object \<^verbatim>\<open>_state\<close> points to
  (\<open>None\<close>: null), \<open>renderer\<close> says that \<^verbatim>\<open>_renderer\<close> is not null, \<open>ticking\<close> that
  \<^verbatim>\<open>checkStep\<close> is subscribed to the update requests.
\<close>

record 's Animation =
  timer :: "int option"
  nextFrameTime :: int
  state :: "'s option"
  renderer :: bool
  updates :: "event list"
  ticking :: bool



definition Animation_new :: "'s env \<Rightarrow> 's Animation" where
  "Animation_new e =
     \<lparr>timer = None, nextFrameTime = kTimeUnknown e, state = None, renderer = False,
      updates = [], ticking = False\<rparr>"

definition parseDone :: "'s env \<Rightarrow> int \<Rightarrow> 's option \<Rightarrow> 's Animation \<Rightarrow> 's Animation option" where
  "parseDone e now st a =
     (case st of
        None \<Rightarrow> None
      | Some s \<Rightarrow>
          let info = information e s
          in Some (a\<lparr>state := Some (state_start e s now),
                     renderer := True,
                     updates := updates a @ [Fire (InformationReady info)],
                     ticking := True\<rparr>))"

definition parseFailed :: "Error \<Rightarrow> 's Animation \<Rightarrow> 's Animation" where
  "parseFailed error a = a\<lparr>updates := updates a @ [FireError error]\<rparr>"

definition initDone :: "'s env \<Rightarrow> int \<Rightarrow> 's InitData \<Rightarrow> 's Animation \<Rightarrow> 's Animation option" where
  "initDone e now data a =
     (case data of
        InitState st \<Rightarrow> parseDone e now (Some st) a
      | InitError error \<Rightarrow> Some (parseFailed error a))"



subsection \<open>Construction, the background task and the callback on the main thread\<close>

text \<open>
  The constructors hand a lambda to \<^verbatim>\<open>crl::async\<close>; run by a worker, it evaluates \<^verbatim>\<open>Init\<close>
  and hands \<^verbatim>\<open>crl::on_main(weak, ...)\<close> a callback that holds the result and calls
  \<^verbatim>\<open>initDone\<close>. The cache-aware constructor first gives \<^verbatim>\<open>get\<close> a callback, which starts
  the same chain once \<^verbatim>\<open>get\<close> has invoked it with the cached bytes. The world below holds
  the object (\<open>None\<close> once its destructor has run), the callbacks and lambdas that have not
  run yet, and two logs: the strings given to the decode library and the argument of
  every execution of \<^verbatim>\<open>initDone\<close>.
\<close>

datatype task = InitTask string FrameRequest | InitCachedTask string string FrameRequest

record 's world =
  animation :: "'s Animation option"
  get_waiting :: "(string \<times> FrameRequest) option"
  async_tasks :: "task list"
  on_main :: "'s InitData list"
  decode_calls :: "string list"
  initDone_runs :: "'s InitData list"

definition Animation_ctor :: "'s env \<Rightarrow> string \<Rightarrow> FrameRequest \<Rightarrow> 's world" where
  "Animation_ctor e content req =
     \<lparr>animation = Some (Animation_new e), get_waiting = None,
      async_tasks = [InitTask content req], on_main = [], decode_calls = [],
      initDone_runs = []\<rparr>"

definition Animation_ctor_cached :: "'s env \<Rightarrow> string \<Rightarrow> FrameRequest \<Rightarrow> 's world" where
  "Animation_ctor_cached e content req =
     \<lparr>animation = Some (Animation_new e), get_waiting = Some (content, req),
      async_tasks = [], on_main = [], decode_calls = [], initDone_runs = []\<rparr>"

text \<open>
  One step of the program: \<^verbatim>\<open>get\<close> delivers the cached bytes, a worker runs the oldest
  lambda, the main thread runs the oldest callback (at time \<open>now\<close>), or the owner destroys
  the object. A step that has nothing to run leaves the world as it is.
\<close>

datatype step = GetDelivers string | RunAsync | RunMain int | Destroy

definition run_task :: "'s env \<Rightarrow> task \<Rightarrow> string list \<Rightarrow> ('s InitData \<times> string list) option" where
  "run_task e t calls =
     (case t of
        InitTask content req \<Rightarrow> Init e content req calls
      | InitCachedTask content cached req \<Rightarrow> InitCached e content cached req calls)"

text \<open>
  Modelled from the spec: \<^verbatim>\<open>crl::async\<close>, \<^verbatim>\<open>crl::on_main\<close> and \<^verbatim>\<open>base::make_weak\<close> are
  library code outside lottie\_animation.cpp. The spec says that the work "executes off the
  owning context", that "completion returns via a thread-safe, exactly-once, cancelable
  dispatch bound to a liveness token captured at schedule time", that destruction before
  completion makes "the stale callback a no-op", and that the cached bytes are obtained
  "collaborator-driven", after construction returns. So a lambda runs once, on a worker,
  whether or not the object still exists; its callback runs once on the main thread and
  calls \<^verbatim>\<open>initDone\<close> only if the object exists then; and \<^verbatim>\<open>get\<close> invokes its callback once.
\<close>

definition exec :: "'s env \<Rightarrow> step \<Rightarrow> 's world \<Rightarrow> 's world option" where
  "exec e s w =
     (case s of
        GetDelivers cached \<Rightarrow>
          (case get_waiting w of
             None \<Rightarrow> Some w
           | Some (content, req) \<Rightarrow>
               Some (w\<lparr>get_waiting := None,
                       async_tasks := async_tasks w @ [InitCachedTask content cached req]\<rparr>))
      | RunAsync \<Rightarrow>
          (case async_tasks w of
             [] \<Rightarrow> Some w
           | t # ts \<Rightarrow>
               (case run_task e t (decode_calls w) of
                  None \<Rightarrow> None
                | Some (data, calls') \<Rightarrow>
                    Some (w\<lparr>async_tasks := ts, on_main := on_main w @ [data],
                            decode_calls := calls'\<rparr>)))
      | RunMain now \<Rightarrow>
          (case on_main w of
             [] \<Rightarrow> Some w
           | data # rest \<Rightarrow>
               (case animation w of
                  None \<Rightarrow> Some (w\<lparr>on_main := rest\<rparr>)
                | Some a \<Rightarrow>
                    (case initDone e now data a of
                       None \<Rightarrow> None
                     | Some a' \<Rightarrow>
                         Some (w\<lparr>on_main := rest, animation := Some a',
                                 initDone_runs := initDone_runs w @ [data]\<rparr>))))
      | Destroy \<Rightarrow> Some (w\<lparr>animation := None\<rparr>))"

fun run :: "'s env \<Rightarrow> step list \<Rightarrow> 's world \<Rightarrow> 's world option" where
  "run e [] w = Some w"
| "run e (s # ss) w = (case exec e s w of None \<Rightarrow> None | Some w' \<Rightarrow> run e ss w')"

subsection \<open>A small environment for concrete evaluations\<close>

text \<open>
  A stand-in for zlib with a two-byte header: \<open>0x1F 0x8B\<close> followed by the payload. It
  uses the return codes as zlib's manual gives them: \<^verbatim>\<open>Z_BUF_ERROR\<close> (-5) when no progress
  is possible, \<^verbatim>\<open>Z_DATA_ERROR\<close> (-3) on a wrong header byte, \<^verbatim>\<open>Z_OK\<close> when it used input or
  filled the output without reaching the end of the stream, and \<^verbatim>\<open>Z_STREAM_END\<close> when the
  whole payload is out.
\<close>

definition toy_inflate :: "string \<Rightarrow> nat \<Rightarrow> int \<times> nat \<times> string" where
  "toy_inflate inp n =
     (case inp of
        [] \<Rightarrow> (-5, 0, [])
      | c # rest \<Rightarrow>
          if c \<noteq> CHR 0x1F then (-3, 0, [])
          else (case rest of
                  [] \<Rightarrow> (0, 1, [])
                | d # payload \<Rightarrow>
                    if d \<noteq> CHR 0x8B then (-3, 1, [])
                    else if length payload \<le> n then (1, length inp, payload)
                    else (0, 2 + n, take n payload)))"

text \<open>
  Modelled from the spec: the class \<^verbatim>\<open>SharedState\<close> is declared and defined outside
  lottie\_animation.cpp. The spec says that the controller starts "the state's internal
  clock at the current time", that \<^verbatim>\<open>markFrameDisplayed(now)\<close> lets the state "record
  display at now" and "returns the state's playback-position value", and that the state
  is queried "for the next due time". This state holds those values and nothing else.
\<close>

record playback =
  info :: Information
  paint :: Frame
  started :: "int option"
  position :: int
  displayed :: "int list"
  due :: int

definition playback_start :: "playback \<Rightarrow> int \<Rightarrow> playback" where
  "playback_start st now = st\<lparr>started := Some now\<rparr>"

text \<open>
  Modelled from the spec: \<^verbatim>\<open>SharedState::markFrameDisplayed\<close> (outside this file) records
  the display at \<open>now\<close> and returns the state's playback-position value.
\<close>

definition playback_markFrameDisplayed :: "playback \<Rightarrow> int \<Rightarrow> int \<times> playback" where
  "playback_markFrameDisplayed st now = (position st, st\<lparr>displayed := displayed st @ [now]\<rparr>)"


definition example_state :: "int \<Rightarrow> int \<Rightarrow> playback" where
  "example_state rate frames =
     \<lparr>info = \<lparr>frameRate = rate, framesCount = frames, size = \<lparr>width = 100, height = 100\<rparr>\<rparr>,
      paint = \<lparr>original = QImage_data 1, request = FrameRequest 0\<rparr>,
      started = None, position = 0, displayed = [], due = 40\<rparr>"

text \<open>
  The environment of the concrete evaluations: at most 4 bytes of content, the stand-in
  for zlib, a decode library that accepts the document \<open>''ok''\<close> only (30 frames per
  second, 10 frames), and a cache that holds one ready frame for each cached byte.
\<close>

definition example_env :: "playback env" where
  "example_env =
     \<lparr>kMaxFileSize = 4,
      kTimeUnknown = - (2 ^ 63),
      inflateInit2 = 0,
      inflate_call = toy_inflate,
      loadFromData = (\<lambda>s. if s = ''ok'' then Some (rlottie_Animation 7) else None),
      Cache_new = (\<lambda>cached req.
         \<lparr>cache_framesCount = int (length cached), cache_framesReady = int (length cached)\<rparr>),
      SharedState_new = (\<lambda>a req. example_state 30 10),
      SharedState_cached = (\<lambda>content a cache req. example_state 30 (cache_framesCount cache)),
      information = info,
      frameForPaint = paint,
      state_start = playback_start,
      state_markFrameDisplayed = playback_markFrameDisplayed,
      state_nextFrameDisplayTime = due\<rparr>"

definition example_file :: "string \<Rightarrow> QFile" where
  "example_file path =
     (if path = ''a.tgs'' then \<lparr>file_size = 2, file_open = True, file_readAll = ''ok''\<rparr>
      else if path = ''big.tgs''
        then \<lparr>file_size = 5, file_open = True, file_readAll = ''12345''\<rparr>
      else \<lparr>file_size = 0, file_open = False, file_readAll = []\<rparr>)"


subsection \<open>A measure for the scheduling argument\<close>

text \<open>
  The callbacks and lambdas of a world that have not run yet, plus the executions of
  \<^verbatim>\<open>initDone\<close> so far.
\<close>

definition outstanding :: "'s world \<Rightarrow> nat" where
  "outstanding w =
     (case get_waiting w of None \<Rightarrow> 0 | Some _ \<Rightarrow> 1)
     + length (async_tasks w) + length (on_main w) + length (initDone_runs w)"

section \<open>Properties\<close>

subsection \<open>The loop of UnpackGzip runs once\<close>

text \<open>
  The loop is entered with \<^verbatim>\<open>avail_out\<close> at 0; its body returns or leaves \<^verbatim>\<open>avail_out\<close> other
  than 0, which ends the loop. So \<^verbatim>\<open>inflate\<close> is called once, with the whole buffer.
\<close>

lemma inflate_length:
  "inflate e stream buf = (res, stream', buf') \<Longrightarrow> length buf' = length buf"
  by (auto simp: inflate_def Let_def split: prod.splits)

lemma unpack_loop_once:
  "avail_out stream = 0 \<Longrightarrow>
   unpack_loop e stream result =
     (case inflate e (stream\<lparr>avail_out := length result\<rparr>) result of
        (res, stream', result') \<Rightarrow>
          if res \<noteq> Z_OK \<and> res \<noteq> Z_STREAM_END then ReturnOriginal
          else if avail_out stream' = 0 then ReturnOriginal
          else LoopDone stream' result')"
  by (subst unpack_loop.simps) (auto split: prod.splits)

lemma UnpackGzip_cases:
  "UnpackGzip e bytes =
     (if inflateInit2 e \<noteq> Z_OK then bytes
      else
        (case inflate e \<lparr>avail_in = length bytes, next_in = bytes,
                          avail_out = kMaxFileSize e + 1\<rparr>
                (replicate (kMaxFileSize e + 1) (CHR 0x00)) of
           (res, stream', result') \<Rightarrow>
             if res \<noteq> Z_OK \<and> res \<noteq> Z_STREAM_END then bytes
             else if avail_out stream' = 0 then bytes
             else take (length result' - avail_out stream') result'))"
  by (simp add: UnpackGzip_def Let_def unpack_loop_once split: prod.splits)

lemma UnpackGzip_length_le:
  assumes "length bytes \<le> kMaxFileSize e"
  shows "length (UnpackGzip e bytes) \<le> kMaxFileSize e"
proof -
  obtain res stream' result' where
    inf: "inflate e \<lparr>avail_in = length bytes, next_in = bytes,
                      avail_out = kMaxFileSize e + 1\<rparr>
            (replicate (kMaxFileSize e + 1) (CHR 0x00)) = (res, stream', result')"
    by (metis prod_cases3)
  have len: "length result' = kMaxFileSize e + 1"
    using inflate_length [OF inf] by simp
  show ?thesis
    unfolding UnpackGzip_cases inf using assms len by auto
qed

lemma CreateFromContent_ok:
  "length content \<le> kMaxFileSize e \<Longrightarrow>
   CreateFromContent e content calls =
     Some (loadFromData e (UnpackGzip e content), calls @ [UnpackGzip e content])"
  by (simp add: CreateFromContent_def Let_def UnpackGzip_length_le)

subsection \<open>Oversized content\<close>

text \<open>
  C1. Content longer than \<^verbatim>\<open>kMaxFileSize\<close>: both overloads of \<^verbatim>\<open>Init\<close> return
  \<^verbatim>\<open>ParseFailed\<close>, and the log of decode-library calls is the one they were given:
  \<^verbatim>\<open>CreateFromContent\<close>, hence \<^verbatim>\<open>loadFromData\<close>, was not called.
\<close>

theorem Init_oversized_ParseFailed:
  assumes "length content > kMaxFileSize e"
  shows "Init e content req calls = Some (InitError ParseFailed, calls)
       \<and> InitCached e content cached req calls = Some (InitError ParseFailed, calls)"
  using assms by (simp add: Init_def InitCached_def ContentError_def)

theorem Init_oversized_ParseFailed_witness:
  "length ''12345'' > kMaxFileSize example_env
   \<and> Init example_env ''12345'' (FrameRequest 0) [] = Some (InitError ParseFailed, [])
   \<and> InitCached example_env ''12345'' ''c'' (FrameRequest 0) []
       = Some (InitError ParseFailed, [])"
  using Init_oversized_ParseFailed [of example_env "''12345''" "FrameRequest 0" "[]" "''c''"]
  by (simp add: example_env_def)

subsection \<open>UnpackGzip: fallback and round trip\<close>

lemma example_unpack_ok:
  "UnpackGzip example_env [CHR 0x1F, CHR 0x8B, CHR ''o'', CHR ''k''] = ''ok''"
  by (simp add: UnpackGzip_cases example_env_def inflate_def toy_inflate_def Z_OK_def
      Z_STREAM_END_def)

text \<open>
  C5. With \<open>res\<close> and \<open>stream'\<close> what the single call of \<^verbatim>\<open>inflate\<close> returns and leaves:
  when \<^verbatim>\<open>inflateInit2\<close> fails, when \<open>res\<close> is neither \<^verbatim>\<open>Z_OK\<close> nor \<^verbatim>\<open>Z_STREAM_END\<close>, or when
  the buffer of \<^verbatim>\<open>kMaxFileSize + 1\<close> bytes is used up (\<^verbatim>\<open>avail_out\<close> is 0), \<^verbatim>\<open>UnpackGzip\<close>
  returns the bytes it was given. It is a total function: no case raises.
\<close>

theorem UnpackGzip_fallback:
  assumes "inflate e \<lparr>avail_in = length bytes, next_in = bytes,
                       avail_out = kMaxFileSize e + 1\<rparr>
             (replicate (kMaxFileSize e + 1) (CHR 0x00)) = (res, stream', result')"
  shows "(inflateInit2 e \<noteq> Z_OK \<longrightarrow> UnpackGzip e bytes = bytes)
       \<and> (res \<noteq> Z_OK \<and> res \<noteq> Z_STREAM_END \<longrightarrow> UnpackGzip e bytes = bytes)
       \<and> (avail_out stream' = 0 \<longrightarrow> UnpackGzip e bytes = bytes)"
  unfolding UnpackGzip_cases assms(1) by auto

lemma ex_inflate_nongzip:
  "inflate example_env \<lparr>avail_in = length ''ok'', next_in = ''ok'',
       avail_out = kMaxFileSize example_env + 1\<rparr>
     (replicate (kMaxFileSize example_env + 1) (CHR 0x00))
   = (-3, \<lparr>avail_in = 2, next_in = ''ok'', avail_out = 5\<rparr>, replicate 5 (CHR 0x00))"
  by (simp add: example_env_def inflate_def toy_inflate_def)

lemma ex_inflate_full:
  "inflate example_env
     \<lparr>avail_in = length [CHR 0x1F, CHR 0x8B, CHR ''a'', CHR ''b'', CHR ''c'', CHR ''d'', CHR ''e''],
      next_in = [CHR 0x1F, CHR 0x8B, CHR ''a'', CHR ''b'', CHR ''c'', CHR ''d'', CHR ''e''],
      avail_out = kMaxFileSize example_env + 1\<rparr>
     (replicate (kMaxFileSize example_env + 1) (CHR 0x00))
   = (1, \<lparr>avail_in = 0, next_in = [], avail_out = 0\<rparr>, ''abcde'')"
  by (simp add: example_env_def inflate_def toy_inflate_def)

theorem UnpackGzip_fallback_witness:
  "inflateInit2 (example_env\<lparr>inflateInit2 := -4\<rparr>) \<noteq> Z_OK
   \<and> UnpackGzip (example_env\<lparr>inflateInit2 := -4\<rparr>) [CHR 0x1F, CHR 0x8B, CHR ''o'', CHR ''k'']
       = [CHR 0x1F, CHR 0x8B, CHR ''o'', CHR ''k'']
   \<and> UnpackGzip example_env ''ok'' = ''ok''
   \<and> UnpackGzip example_env [CHR 0x1F, CHR 0x8B, CHR ''a'', CHR ''b'', CHR ''c'', CHR ''d'', CHR ''e'']
       = [CHR 0x1F, CHR 0x8B, CHR ''a'', CHR ''b'', CHR ''c'', CHR ''d'', CHR ''e'']"
proof -
  have init: "inflateInit2 (example_env\<lparr>inflateInit2 := -4\<rparr>) \<noteq> Z_OK"
    by (simp add: Z_OK_def)
  obtain res stream' result' where
    "inflate (example_env\<lparr>inflateInit2 := -4\<rparr>)
       \<lparr>avail_in = length [CHR 0x1F, CHR 0x8B, CHR ''o'', CHR ''k''],
        next_in = [CHR 0x1F, CHR 0x8B, CHR ''o'', CHR ''k''],
        avail_out = kMaxFileSize (example_env\<lparr>inflateInit2 := -4\<rparr>) + 1\<rparr>
       (replicate (kMaxFileSize (example_env\<lparr>inflateInit2 := -4\<rparr>) + 1) (CHR 0x00))
     = (res, stream', result')"
    by (metis prod_cases3)
  from UnpackGzip_fallback [OF this] init
  have a: "UnpackGzip (example_env\<lparr>inflateInit2 := -4\<rparr>) [CHR 0x1F, CHR 0x8B, CHR ''o'', CHR ''k'']
       = [CHR 0x1F, CHR 0x8B, CHR ''o'', CHR ''k'']"
    by blast
  have b: "UnpackGzip example_env ''ok'' = ''ok''"
    using UnpackGzip_fallback [OF ex_inflate_nongzip]
    by (simp add: Z_OK_def Z_STREAM_END_def)
  have c: "UnpackGzip example_env [CHR 0x1F, CHR 0x8B, CHR ''a'', CHR ''b'', CHR ''c'', CHR ''d'', CHR ''e'']
       = [CHR 0x1F, CHR 0x8B, CHR ''a'', CHR ''b'', CHR ''c'', CHR ''d'', CHR ''e'']"
    using UnpackGzip_fallback [OF ex_inflate_full] by simp
  show ?thesis using init a b c by simp
qed

text \<open>
  C6, as stated, fails on a truncated stream. \<^verbatim>\<open>inflate\<close> returns \<^verbatim>\<open>Z_OK\<close> whenever it made
  progress, so on input that ends inside the gzip header (here its first byte alone) it
  consumes the input, produces nothing and reports \<^verbatim>\<open>Z_OK\<close>. The source accepts \<^verbatim>\<open>Z_OK\<close>
  like \<^verbatim>\<open>Z_STREAM_END\<close>, finds \<^verbatim>\<open>avail_out\<close> not zero, and returns the bytes produced so
  far: the empty string, not the input.
\<close>

theorem UnpackGzip_truncated_counterexample:
  "fst (inflate_call example_env [CHR 0x1F] (kMaxFileSize example_env + 1)) \<noteq> Z_STREAM_END
   \<and> UnpackGzip example_env [CHR 0x1F] = []
   \<and> UnpackGzip example_env [CHR 0x1F] \<noteq> [CHR 0x1F]"
  by (simp add: UnpackGzip_cases example_env_def inflate_def toy_inflate_def Z_OK_def
      Z_STREAM_END_def)

text \<open>
  C6, amended. Let the call of \<^verbatim>\<open>inflate\<close> on \<open>g\<close> with \<^verbatim>\<open>kMaxFileSize + 1\<close> bytes of output
  space return \<open>res\<close> and produce \<open>x\<close>. If it reached the end of the stream and \<open>x\<close> has at
  most \<^verbatim>\<open>kMaxFileSize\<close> bytes, \<^verbatim>\<open>UnpackGzip\<close> returns exactly \<open>x\<close>; if \<open>res\<close> is neither \<^verbatim>\<open>Z_OK\<close>
  nor \<^verbatim>\<open>Z_STREAM_END\<close>, it returns \<open>g\<close> unchanged.
\<close>

theorem UnpackGzip_round_trip:
  assumes "inflateInit2 e = Z_OK"
    and "inflate_call e g (kMaxFileSize e + 1) = (res, used, x)"
  shows "(res = Z_STREAM_END \<and> length x \<le> kMaxFileSize e \<longrightarrow> UnpackGzip e g = x)
       \<and> (res \<noteq> Z_OK \<and> res \<noteq> Z_STREAM_END \<longrightarrow> UnpackGzip e g = g)"
  using assms
  by (auto simp: UnpackGzip_cases inflate_def Let_def min_def)

theorem UnpackGzip_round_trip_witness:
  "inflateInit2 example_env = Z_OK
   \<and> inflate_call example_env [CHR 0x1F, CHR 0x8B, CHR ''o'', CHR ''k''] (kMaxFileSize example_env + 1)
       = (Z_STREAM_END, 4, ''ok'')
   \<and> length ''ok'' \<le> kMaxFileSize example_env
   \<and> UnpackGzip example_env [CHR 0x1F, CHR 0x8B, CHR ''o'', CHR ''k''] = ''ok''
   \<and> inflate_call example_env ''ok'' (kMaxFileSize example_env + 1) = (-3, 0, [])
   \<and> UnpackGzip example_env ''ok'' = ''ok''"
proof -
  have i: "inflateInit2 example_env = Z_OK"
    by (simp add: example_env_def Z_OK_def)
  have c1: "inflate_call example_env [CHR 0x1F, CHR 0x8B, CHR ''o'', CHR ''k'']
              (kMaxFileSize example_env + 1) = (Z_STREAM_END, 4, ''ok'')"
    by (simp add: example_env_def toy_inflate_def Z_STREAM_END_def)
  have c2: "inflate_call example_env ''ok'' (kMaxFileSize example_env + 1) = (-3, 0, [])"
    by (simp add: example_env_def toy_inflate_def)
  have k: "length ''ok'' \<le> kMaxFileSize example_env"
    by (simp add: example_env_def)
  have r1: "UnpackGzip example_env [CHR 0x1F, CHR 0x8B, CHR ''o'', CHR ''k''] = ''ok''"
    using UnpackGzip_round_trip [OF i c1] k by simp
  have r2: "UnpackGzip example_env ''ok'' = ''ok''"
    using UnpackGzip_round_trip [OF i c2] by (simp add: Z_OK_def Z_STREAM_END_def)
  show ?thesis using i c1 c2 k r1 r2 by simp
qed

subsection \<open>The size assertion of CreateFromContent\<close>

text \<open>
  C9. For input of at most \<^verbatim>\<open>kMaxFileSize\<close> bytes the string \<^verbatim>\<open>UnpackGzip\<close> returns has at
  most \<^verbatim>\<open>kMaxFileSize\<close> bytes (the input itself, or a prefix of the buffer that leaves at
  least one of its \<^verbatim>\<open>kMaxFileSize + 1\<close> bytes unused), so \<^verbatim>\<open>CreateFromContent\<close> passes its
  assertion and reaches the decode library with that string.
\<close>

theorem UnpackGzip_size_bound:
  assumes "length bytes \<le> kMaxFileSize e"
  shows "length (UnpackGzip e bytes) \<le> kMaxFileSize e
       \<and> CreateFromContent e bytes calls
           = Some (loadFromData e (UnpackGzip e bytes), calls @ [UnpackGzip e bytes])"
  using assms by (simp add: UnpackGzip_length_le CreateFromContent_ok)

theorem UnpackGzip_size_bound_witness:
  "length [CHR 0x1F, CHR 0x8B, CHR ''o'', CHR ''k''] \<le> kMaxFileSize example_env
   \<and> length (UnpackGzip example_env [CHR 0x1F, CHR 0x8B, CHR ''o'', CHR ''k''])
       \<le> kMaxFileSize example_env
   \<and> CreateFromContent example_env [CHR 0x1F, CHR 0x8B, CHR ''o'', CHR ''k''] []
       = Some (Some (rlottie_Animation 7), [''ok''])"
  using UnpackGzip_size_bound [of "[CHR 0x1F, CHR 0x8B, CHR ''o'', CHR ''k'']" example_env "[]"]
  by (simp add: example_unpack_ok) (simp add: example_env_def)

subsection \<open>ReadContent\<close>

text \<open>
  C7. \<^verbatim>\<open>ReadContent\<close> returns the data when it is not empty. For empty data it returns what
  \<^verbatim>\<open>readAll\<close> gives for the file at the path when the file's size is at most \<^verbatim>\<open>kMaxFileSize\<close>
  and the file opens, and the empty buffer otherwise. It is a total function: no case
  raises.
\<close>

theorem ReadContent_cases:
  "(data \<noteq> [] \<longrightarrow> ReadContent e fs data path = data)
   \<and> (data = [] \<and> file_size (fs path) \<le> int (kMaxFileSize e) \<and> file_open (fs path)
        \<longrightarrow> ReadContent e fs data path = file_readAll (fs path))
   \<and> (data = [] \<and> \<not> (file_size (fs path) \<le> int (kMaxFileSize e) \<and> file_open (fs path))
        \<longrightarrow> ReadContent e fs data path = [])"
  by (auto simp: ReadContent_def ReadFile_def Let_def)

theorem ReadContent_cases_witness:
  "ReadContent example_env example_file ''xy'' ''a.tgs'' = ''xy''
   \<and> ReadContent example_env example_file [] ''a.tgs'' = ''ok''
   \<and> ReadContent example_env example_file [] ''big.tgs'' = []
   \<and> ReadContent example_env example_file [] ''none.tgs'' = []"
  using ReadContent_cases [of "''xy''" example_env example_file "''a.tgs''"]
    ReadContent_cases [of "[]" example_env example_file "''a.tgs''"]
    ReadContent_cases [of "[]" example_env example_file "''big.tgs''"]
    ReadContent_cases [of "[]" example_env example_file "''none.tgs''"]
  by (simp add: example_env_def example_file_def)

subsection \<open>What Init returns\<close>

lemma CheckSharedState_Some:
  "CheckSharedState e (Some st) =
     Some (if frameRate (information e st) = 0 \<or> framesCount (information e st) \<le> 0
              \<or> isEmpty (size (information e st))
           then InitError NotSupported else InitState st)"
  by (simp add: CheckSharedState_def Let_def)

lemma Init_small:
  assumes "length content \<le> kMaxFileSize e"
  shows "Init e content req calls =
     Some (case loadFromData e (UnpackGzip e content) of
             None \<Rightarrow> InitError ParseFailed
           | Some a \<Rightarrow>
               (if frameRate (information e (SharedState_new e a req)) = 0
                   \<or> framesCount (information e (SharedState_new e a req)) \<le> 0
                   \<or> isEmpty (size (information e (SharedState_new e a req)))
                then InitError NotSupported else InitState (SharedState_new e a req)),
           calls @ [UnpackGzip e content])"
  using assms
  by (simp add: Init_def ContentError_def CreateFromContent_ok CheckSharedState_Some
      split: option.splits)

lemma Init_large:
  "kMaxFileSize e < length content \<Longrightarrow>
   Init e content req calls = Some (InitError ParseFailed, calls)"
  by (simp add: Init_def ContentError_def)

lemma InitCached_large:
  "kMaxFileSize e < length content \<Longrightarrow>
   InitCached e content cached req calls = Some (InitError ParseFailed, calls)"
  by (simp add: InitCached_def ContentError_def)

lemma InitCached_small_prepare:
  assumes "length content \<le> kMaxFileSize e"
    and "cache_framesCount (Cache_new e cached req) = 0
         \<or> cache_framesReady (Cache_new e cached req) < cache_framesCount (Cache_new e cached req)"
  shows "InitCached e content cached req calls =
     Some (case loadFromData e (UnpackGzip e content) of
             None \<Rightarrow> InitError ParseFailed
           | Some a \<Rightarrow>
               (let st = SharedState_cached e content (Some a) (Cache_new e cached req) req
                in if frameRate (information e st) = 0 \<or> framesCount (information e st) \<le> 0
                      \<or> isEmpty (size (information e st))
                   then InitError NotSupported else InitState st),
           calls @ [UnpackGzip e content])"
  using assms
  by (auto simp: InitCached_def ContentError_def CreateFromContent_ok CheckSharedState_Some
      Let_def split: option.splits)

lemma InitCached_small_complete:
  assumes "length content \<le> kMaxFileSize e"
    and "\<not> (cache_framesCount (Cache_new e cached req) = 0
         \<or> cache_framesReady (Cache_new e cached req) < cache_framesCount (Cache_new e cached req))"
  shows "InitCached e content cached req calls =
     Some (let st = SharedState_cached e content None (Cache_new e cached req) req
           in if frameRate (information e st) = 0 \<or> framesCount (information e st) \<le> 0
                 \<or> isEmpty (size (information e st))
              then InitError NotSupported else InitState st,
           calls)"
  using assms
  by (auto simp: InitCached_def ContentError_def CheckSharedState_Some Let_def)

lemma Init_total: "\<exists>d calls'. Init e content req calls = Some (d, calls')"
  by (cases "length content \<le> kMaxFileSize e") (simp_all add: Init_small Init_large)

lemma InitCached_total: "\<exists>d calls'. InitCached e content cached req calls = Some (d, calls')"
  by (cases "length content \<le> kMaxFileSize e";
      cases "cache_framesCount (Cache_new e cached req) = 0
         \<or> cache_framesReady (Cache_new e cached req) < cache_framesCount (Cache_new e cached req)")
     (simp_all only: InitCached_small_prepare InitCached_small_complete InitCached_large
        not_le option.inject prod.inject simp_thms ex_simps)

subsection \<open>The cache decides whether the decode library runs\<close>

lemma example_unpack_plain: "UnpackGzip example_env ''ok'' = ''ok''"
  by (simp add: UnpackGzip_cases example_env_def inflate_def toy_inflate_def Z_OK_def
      Z_STREAM_END_def)

lemma example_unpack_no: "UnpackGzip example_env ''no'' = ''no''"
  by (simp add: UnpackGzip_cases example_env_def inflate_def toy_inflate_def Z_OK_def
      Z_STREAM_END_def)

text \<open>
  C2. Cache-aware \<^verbatim>\<open>Init\<close> on content that passes the size check: the log of decode-library
  calls grows by one call (on the unpacked content) if the cache reports
  \<^verbatim>\<open>framesCount() == 0\<close> or \<^verbatim>\<open>framesReady() < framesCount()\<close>, and is unchanged otherwise; so
  a complete cache never causes a call and an empty or partial one always does. When the
  call is needed and the library returns no handle, the result is \<^verbatim>\<open>ParseFailed\<close>.
\<close>

theorem InitCached_decodes_iff_needed:
  assumes "length content \<le> kMaxFileSize e"
  shows "map_option snd (InitCached e content cached req calls) =
           Some (if cache_framesCount (Cache_new e cached req) = 0
                    \<or> cache_framesReady (Cache_new e cached req)
                        < cache_framesCount (Cache_new e cached req)
                 then calls @ [UnpackGzip e content] else calls)
       \<and> ((cache_framesCount (Cache_new e cached req) = 0
             \<or> cache_framesReady (Cache_new e cached req)
                 < cache_framesCount (Cache_new e cached req))
            \<and> loadFromData e (UnpackGzip e content) = None
          \<longrightarrow> map_option fst (InitCached e content cached req calls)
                = Some (InitError ParseFailed))"
proof (cases "cache_framesCount (Cache_new e cached req) = 0
          \<or> cache_framesReady (Cache_new e cached req) < cache_framesCount (Cache_new e cached req)")
  case True
  show ?thesis
    unfolding InitCached_small_prepare [OF assms True] using True by auto
next
  case False
  show ?thesis
    unfolding InitCached_small_complete [OF assms False] using False by auto
qed

theorem InitCached_decodes_iff_needed_witness:
  "length ''ok'' \<le> kMaxFileSize example_env
   \<and> map_option snd (InitCached example_env ''ok'' ''ccc'' (FrameRequest 0) []) = Some []
   \<and> map_option snd (InitCached example_env ''ok'' [] (FrameRequest 0) []) = Some [''ok'']
   \<and> map_option snd
        (InitCached
           (example_env\<lparr>Cache_new :=
              \<lambda>cached req. \<lparr>cache_framesCount = 10, cache_framesReady = 3\<rparr>\<rparr>)
           ''ok'' ''ccc'' (FrameRequest 0) []) = Some [''ok'']
   \<and> map_option snd (InitCached example_env ''no'' [] (FrameRequest 0) []) = Some [''no'']
   \<and> map_option fst (InitCached example_env ''no'' [] (FrameRequest 0) [])
       = Some (InitError ParseFailed)"
proof -
  have k: "length ''ok'' \<le> kMaxFileSize example_env" "length ''no'' \<le> kMaxFileSize example_env"
    by (simp_all add: example_env_def)
  let ?e = "example_env\<lparr>Cache_new :=
              \<lambda>cached req. \<lparr>cache_framesCount = 10, cache_framesReady = 3\<rparr>\<rparr>"
  have k': "length ''ok'' \<le> kMaxFileSize ?e"
    by (simp add: example_env_def)
  have u': "UnpackGzip ?e ''ok'' = ''ok''"
    by (simp add: UnpackGzip_cases example_env_def inflate_def toy_inflate_def Z_OK_def
      Z_STREAM_END_def)
  have c: "Cache_new example_env = (\<lambda>cached req.
         \<lparr>cache_framesCount = int (length cached), cache_framesReady = int (length cached)\<rparr>)"
    "loadFromData example_env ''no'' = None"
    by (simp_all add: example_env_def)
  have a1: "map_option snd (InitCached example_env ''ok'' ''ccc'' (FrameRequest 0) []) = Some []"
    using InitCached_decodes_iff_needed [OF k(1), of "''ccc''" "FrameRequest 0" "[]"]
    by (simp add: c)
  have a2: "map_option snd (InitCached example_env ''ok'' [] (FrameRequest 0) []) = Some [''ok'']"
    using InitCached_decodes_iff_needed [OF k(1), of "[]" "FrameRequest 0" "[]"]
    by (simp add: c example_unpack_plain)
  have a3: "map_option snd (InitCached ?e ''ok'' ''ccc'' (FrameRequest 0) []) = Some [''ok'']"
    using InitCached_decodes_iff_needed [OF k', of "''ccc''" "FrameRequest 0" "[]"]
    by (simp add: u')
  have a4: "map_option snd (InitCached example_env ''no'' [] (FrameRequest 0) []) = Some [''no'']
     \<and> map_option fst (InitCached example_env ''no'' [] (FrameRequest 0) [])
       = Some (InitError ParseFailed)"
    using InitCached_decodes_iff_needed [OF k(2), of "[]" "FrameRequest 0" "[]"]
    by (simp add: c example_unpack_no)
  show ?thesis using k(1) a1 a2 a3 a4 by simp
qed

subsection \<open>ReadThumbnail\<close>

text \<open>
  C10. \<^verbatim>\<open>ReadThumbnail\<close> always returns an image (no assertion fails on the way). When
  \<^verbatim>\<open>Init\<close> returns an error the image is the null \<^verbatim>\<open>QImage\<close>: for content over the size
  limit, for content the decode library returns no handle for, and for a state that
  \<^verbatim>\<open>CheckSharedState\<close> rejects. When \<^verbatim>\<open>Init\<close> returns a state, the image is \<^verbatim>\<open>original\<close> of
  that state's \<^verbatim>\<open>frameForPaint()\<close>.
\<close>

theorem ReadThumbnail_result:
  "(\<exists>img calls'. ReadThumbnail e rq content calls = Some (img, calls'))
   \<and> (Init e content rq calls = Some (InitError err, calls')
        \<longrightarrow> ReadThumbnail e rq content calls = Some (QImage_null, calls'))
   \<and> (Init e content rq calls = Some (InitState st, calls')
        \<longrightarrow> ReadThumbnail e rq content calls = Some (original (frameForPaint e st), calls'))
   \<and> (kMaxFileSize e < length content
        \<longrightarrow> ReadThumbnail e rq content calls = Some (QImage_null, calls))
   \<and> (length content \<le> kMaxFileSize e \<and> loadFromData e (UnpackGzip e content) = None
        \<longrightarrow> ReadThumbnail e rq content calls = Some (QImage_null, calls @ [UnpackGzip e content]))
   \<and> (length content \<le> kMaxFileSize e \<and> loadFromData e (UnpackGzip e content) = Some a
        \<and> CheckSharedState e (Some (SharedState_new e a rq)) = Some (InitError NotSupported)
        \<longrightarrow> ReadThumbnail e rq content calls = Some (QImage_null, calls @ [UnpackGzip e content]))"
proof -
  obtain d c where i: "Init e content rq calls = Some (d, c)"
    using Init_total by blast
  have 1: "\<exists>img calls'. ReadThumbnail e rq content calls = Some (img, calls')"
    by (cases d) (simp_all add: ReadThumbnail_def i)
  have 2: "Init e content rq calls = Some (InitError err, calls')
        \<longrightarrow> ReadThumbnail e rq content calls = Some (QImage_null, calls')"
    by (simp add: ReadThumbnail_def)
  have 3: "Init e content rq calls = Some (InitState st, calls')
        \<longrightarrow> ReadThumbnail e rq content calls = Some (original (frameForPaint e st), calls')"
    by (simp add: ReadThumbnail_def)
  have 4: "kMaxFileSize e < length content
        \<longrightarrow> ReadThumbnail e rq content calls = Some (QImage_null, calls)"
    by (simp add: ReadThumbnail_def Init_large)
  have 5: "length content \<le> kMaxFileSize e \<and> loadFromData e (UnpackGzip e content) = None
        \<longrightarrow> ReadThumbnail e rq content calls = Some (QImage_null, calls @ [UnpackGzip e content])"
    by (simp add: ReadThumbnail_def Init_small)
  have 6: "length content \<le> kMaxFileSize e \<and> loadFromData e (UnpackGzip e content) = Some a
        \<and> CheckSharedState e (Some (SharedState_new e a rq)) = Some (InitError NotSupported)
        \<longrightarrow> ReadThumbnail e rq content calls = Some (QImage_null, calls @ [UnpackGzip e content])"
    by (auto simp: ReadThumbnail_def Init_small CheckSharedState_Some split: if_splits)
  show ?thesis using 1 2 3 4 5 6 by blast
qed

lemma example_env_fields:
  "length ''ok'' \<le> kMaxFileSize example_env"
  "length ''no'' \<le> kMaxFileSize example_env"
  "kMaxFileSize example_env < length ''12345''"
  "loadFromData example_env ''ok'' = Some (rlottie_Animation 7)"
  "loadFromData example_env ''no'' = None"
  "SharedState_new example_env = (\<lambda>a req. example_state 30 10)"
  "information example_env = info"
  "frameForPaint example_env = paint"
  "state_start example_env = playback_start"
  "state_markFrameDisplayed example_env = playback_markFrameDisplayed"
  "kMaxFileSize example_env = 4"
  "kTimeUnknown example_env = - (2 ^ 63)"
  by (simp_all add: example_env_def)

lemma example_Init_ok:
  "Init example_env ''ok'' (FrameRequest 0) calls
     = Some (InitState (example_state 30 10), calls @ [''ok''])"
  by (simp add: Init_small [OF example_env_fields(1)] example_unpack_plain example_env_fields
      example_state_def isEmpty_def)

lemma example_Init_no:
  "Init example_env ''no'' (FrameRequest 0) calls = Some (InitError ParseFailed, calls @ [''no''])"
  by (simp add: Init_small [OF example_env_fields(2)] example_unpack_no example_env_fields)

theorem ReadThumbnail_result_witness:
  "ReadThumbnail example_env (FrameRequest 0) ''ok'' [] = Some (QImage_data 1, [''ok''])
   \<and> ReadThumbnail example_env (FrameRequest 0) ''no'' [] = Some (QImage_null, [''no''])
   \<and> ReadThumbnail example_env (FrameRequest 0) ''12345'' [] = Some (QImage_null, [])
   \<and> ReadThumbnail (example_env\<lparr>SharedState_new := \<lambda>a req. example_state 0 10\<rparr>)
        (FrameRequest 0) ''ok'' [] = Some (QImage_null, [''ok''])"
proof -
  let ?e = "example_env\<lparr>SharedState_new := \<lambda>a req. example_state 0 10\<rparr>"
  have u: "UnpackGzip ?e ''ok'' = ''ok''"
    by (simp add: UnpackGzip_cases example_env_def inflate_def toy_inflate_def Z_OK_def
      Z_STREAM_END_def)
  have a: "ReadThumbnail example_env (FrameRequest 0) ''ok'' [] = Some (QImage_data 1, [''ok''])"
    using ReadThumbnail_result [where e = example_env and rq = "FrameRequest 0"
        and content = "''ok''" and calls = "[]" and st = "example_state 30 10"
        and calls' = "[''ok'']"]
    by (simp add: example_Init_ok example_env_fields example_state_def)
  have b: "ReadThumbnail example_env (FrameRequest 0) ''no'' [] = Some (QImage_null, [''no''])"
    using ReadThumbnail_result [where e = example_env and rq = "FrameRequest 0"
        and content = "''no''" and calls = "[]"]
    by (simp add: example_unpack_no example_env_fields)
  have c: "ReadThumbnail example_env (FrameRequest 0) ''12345'' [] = Some (QImage_null, [])"
    using ReadThumbnail_result [where e = example_env and rq = "FrameRequest 0"
        and content = "''12345''" and calls = "[]"]
    by (simp add: example_env_fields)
  have d: "ReadThumbnail ?e (FrameRequest 0) ''ok'' [] = Some (QImage_null, [''ok''])"
    using ReadThumbnail_result [where e = ?e and rq = "FrameRequest 0"
        and content = "''ok''" and calls = "[]" and a = "rlottie_Animation 7"]
    by (simp add: u CheckSharedState_Some) (simp add: example_env_def example_state_def)
  show ?thesis using a b c d by simp
qed

subsection \<open>CheckSharedState and the ready state\<close>






subsection \<open>checkNextFrameRender\<close>




subsection \<open>initDone runs at most once, and not on a destroyed object\<close>

lemma run_task_total: "\<exists>d calls'. run_task e t calls = Some (d, calls')"
  by (cases t) (simp_all add: run_task_def Init_total InitCached_total)

lemma initDone_total: "\<exists>a'. initDone e now data a = Some a'"
  by (cases data) (simp_all add: initDone_def parseDone_def Let_def)

lemma exec_total: "\<exists>w'. exec e s w = Some w'"
proof (cases s)
  case (GetDelivers cached)
  then show ?thesis by (auto simp: exec_def split: option.splits)
next
  case RunAsync
  show ?thesis
  proof (cases "async_tasks w")
    case Nil
    with RunAsync show ?thesis by (simp add: exec_def)
  next
    case (Cons t ts)
    obtain d c where "run_task e t (decode_calls w) = Some (d, c)"
      using run_task_total by blast
    with RunAsync Cons show ?thesis by (simp add: exec_def)
  qed
next
  case (RunMain now)
  show ?thesis
  proof (cases "on_main w")
    case Nil
    with RunMain show ?thesis by (simp add: exec_def)
  next
    case (Cons d rest)
    show ?thesis
    proof (cases "animation w")
      case None
      with RunMain Cons show ?thesis by (simp add: exec_def)
    next
      case (Some a)
      obtain a' where "initDone e now d a = Some a'"
        using initDone_total by blast
      with RunMain Cons Some show ?thesis by (simp add: exec_def)
    qed
  qed
next
  case Destroy
  then show ?thesis by (simp add: exec_def)
qed

lemma exec_outstanding_le:
  "exec e s w = Some w' \<Longrightarrow> outstanding w' \<le> outstanding w"
  by (cases s)
     (auto simp: exec_def outstanding_def split: option.splits list.splits prod.splits)

lemma exec_outstanding_alive:
  "exec e s w = Some w' \<Longrightarrow> s \<noteq> Destroy \<Longrightarrow> animation w \<noteq> None \<Longrightarrow>
   outstanding w' = outstanding w \<and> animation w' \<noteq> None"
  by (cases s)
     (auto simp: exec_def outstanding_def split: option.splits list.splits prod.splits)

lemma exec_dead:
  "exec e s w = Some w' \<Longrightarrow> animation w = None \<Longrightarrow>
   animation w' = None \<and> initDone_runs w' = initDone_runs w"
  by (cases s)
     (auto simp: exec_def split: option.splits list.splits prod.splits)

lemma run_total: "\<exists>w'. run e ss w = Some w'"
proof (induction ss arbitrary: w)
  case Nil
  show ?case by simp
next
  case (Cons s ss)
  obtain w1 where "exec e s w = Some w1"
    using exec_total by blast
  with Cons show ?case by simp
qed

lemma run_outstanding_le:
  "run e ss w = Some w' \<Longrightarrow> outstanding w' \<le> outstanding w"
proof (induction ss arbitrary: w)
  case Nil
  then show ?case by simp
next
  case (Cons s ss)
  then obtain w1 where 1: "exec e s w = Some w1" and 2: "run e ss w1 = Some w'"
    by (auto split: option.splits)
  from Cons.IH [OF 2] exec_outstanding_le [OF 1] show ?case by simp
qed

lemma run_outstanding_alive:
  "run e ss w = Some w' \<Longrightarrow> Destroy \<notin> set ss \<Longrightarrow> animation w \<noteq> None \<Longrightarrow>
   outstanding w' = outstanding w"
proof (induction ss arbitrary: w)
  case Nil
  then show ?case by simp
next
  case (Cons s ss)
  then obtain w1 where 1: "exec e s w = Some w1" and 2: "run e ss w1 = Some w'"
    by (auto split: option.splits)
  from Cons.prems have 3: "s \<noteq> Destroy" "Destroy \<notin> set ss"
    by auto
  from exec_outstanding_alive [OF 1 3(1) Cons.prems(3)] Cons.IH [OF 2 3(2)]
  show ?case by simp
qed

lemma run_dead:
  "run e ss w = Some w' \<Longrightarrow> animation w = None \<Longrightarrow> initDone_runs w' = initDone_runs w"
proof (induction ss arbitrary: w)
  case Nil
  then show ?case by simp
next
  case (Cons s ss)
  then obtain w1 where 1: "exec e s w = Some w1" and 2: "run e ss w1 = Some w'"
    by (auto split: option.splits)
  from exec_dead [OF 1 Cons.prems(2)] Cons.IH [OF 2] show ?case by simp
qed

lemma run_append:
  "run e (xs @ ys) w = (case run e xs w of None \<Rightarrow> None | Some w' \<Rightarrow> run e ys w')"
  by (induction xs arbitrary: w) (simp_all split: option.splits)

lemma ctor_outstanding:
  "outstanding (Animation_ctor e content req) = 1"
  "outstanding (Animation_ctor_cached e content req) = 1"
  "animation (Animation_ctor e content req) \<noteq> None"
  "animation (Animation_ctor_cached e content req) \<noteq> None"
  by (simp_all add: outstanding_def Animation_ctor_def Animation_ctor_cached_def)

text \<open>
  C8, amended. On every schedule after either constructor: the program does not abort,
  \<^verbatim>\<open>initDone\<close> has executed at most once, and exactly once when the object was not destroyed
  and nothing is left to run; once the object is destroyed no later step executes
  \<^verbatim>\<open>initDone\<close>; and an execution of \<^verbatim>\<open>initDone\<close> is a call of exactly one of \<^verbatim>\<open>parseDone\<close> (on
  a state) and \<^verbatim>\<open>parseFailed\<close> (on an error).
\<close>

theorem initDone_at_most_once:
  assumes "w0 = Animation_ctor e content req \<or> w0 = Animation_ctor_cached e content req"
  shows "\<exists>w. run e ss w0 = Some w
      \<and> length (initDone_runs w) \<le> 1
      \<and> (Destroy \<notin> set ss \<and> get_waiting w = None \<and> async_tasks w = [] \<and> on_main w = []
           \<longrightarrow> length (initDone_runs w) = 1)
      \<and> (animation w = None
           \<longrightarrow> (\<forall>ss'. map_option initDone_runs (run e ss' w) = Some (initDone_runs w)))
      \<and> (\<forall>now data a.
            (\<exists>st. data = InitState st \<and> initDone e now data a = parseDone e now (Some st) a)
            \<noteq> (\<exists>err. data = InitError err \<and> initDone e now data a = Some (parseFailed err a)))"
proof -
  obtain w where w: "run e ss w0 = Some w"
    using run_total by blast
  have o: "outstanding w0 = 1" and al: "animation w0 \<noteq> None"
    using assms ctor_outstanding by auto
  have 1: "length (initDone_runs w) \<le> 1"
    using run_outstanding_le [OF w] o by (simp add: outstanding_def)
  have 2: "length (initDone_runs w) = 1"
    if "Destroy \<notin> set ss \<and> get_waiting w = None \<and> async_tasks w = [] \<and> on_main w = []"
    using run_outstanding_alive [OF w _ al] that o by (simp add: outstanding_def)
  have 3: "map_option initDone_runs (run e ss' w) = Some (initDone_runs w)"
    if "animation w = None" for ss'
  proof -
    obtain w' where w': "run e ss' w = Some w'"
      using run_total by blast
    from run_dead [OF w' that] w' show ?thesis by simp
  qed
  have 4: "(\<exists>st. data = InitState st \<and> initDone e now data a = parseDone e now (Some st) a)
            \<noteq> (\<exists>err. data = InitError err \<and> initDone e now data a = Some (parseFailed err a))"
    for now data a
    by (cases data) (simp_all add: initDone_def)
  show ?thesis using w 1 2 3 4 by blast
qed

lemma example_run_alive:
  "run example_env [RunAsync, RunMain 5] (Animation_ctor example_env ''ok'' (FrameRequest 0))
   = Some \<lparr>animation = Some ((Animation_new example_env)
               \<lparr>state := Some ((example_state 30 10)\<lparr>started := Some 5\<rparr>),
                renderer := True,
                updates := [Fire (InformationReady (info (example_state 30 10)))],
                ticking := True\<rparr>),
            get_waiting = None, async_tasks = [], on_main = [], decode_calls = [''ok''],
            initDone_runs = [InitState (example_state 30 10)]\<rparr>"
  by (simp add: Animation_ctor_def Animation_new_def exec_def run_task_def example_Init_ok
      initDone_def parseDone_def Let_def example_env_fields playback_start_def)

text \<open>
  C8, as stated, fails for an object that is destroyed before the callback runs: the
  worker still evaluates \<^verbatim>\<open>Init\<close>, the callback is dropped, nothing is left to run, and
  \<^verbatim>\<open>initDone\<close> has executed zero times.
\<close>

theorem initDone_destroyed_counterexample:
  "run example_env [Destroy, RunAsync, RunMain 5]
     (Animation_ctor example_env ''ok'' (FrameRequest 0))
   = Some \<lparr>animation = None, get_waiting = None, async_tasks = [], on_main = [],
            decode_calls = [''ok''], initDone_runs = []\<rparr>"
  by (simp add: Animation_ctor_def exec_def run_task_def example_Init_ok)

theorem initDone_at_most_once_witness:
  "Destroy \<notin> set [RunAsync, RunMain 5]
   \<and> map_option initDone_runs
        (run example_env [RunAsync, RunMain 5]
           (Animation_ctor example_env ''ok'' (FrameRequest 0)))
       = Some [InitState (example_state 30 10)]
   \<and> map_option animation
        (run example_env [RunAsync, Destroy]
           (Animation_ctor example_env ''ok'' (FrameRequest 0))) = Some None
   \<and> map_option initDone_runs
        (run example_env ([RunAsync, Destroy] @ [RunMain 5])
           (Animation_ctor example_env ''ok'' (FrameRequest 0))) = Some []"
proof -
  let ?w0 = "Animation_ctor example_env ''ok'' (FrameRequest 0)"
  let ?dead = "\<lparr>animation = None, get_waiting = None, async_tasks = [],
      on_main = [InitState (example_state 30 10)], decode_calls = [''ok''],
      initDone_runs = []\<rparr> :: playback world"
  have d: "run example_env [RunAsync, Destroy] ?w0 = Some ?dead"
    by (simp add: Animation_ctor_def exec_def run_task_def example_Init_ok)
  from initDone_at_most_once [of ?w0 example_env "''ok''" "FrameRequest 0" "[RunAsync, RunMain 5]"]
  have a: "map_option initDone_runs (run example_env [RunAsync, RunMain 5] ?w0)
       = Some [InitState (example_state 30 10)]"
    unfolding example_run_alive by simp
  from initDone_at_most_once [where e = example_env and content = "''ok''"
      and req = "FrameRequest 0" and ss = "[RunAsync, Destroy]", OF disjI1, OF refl]
  obtain w where w: "run example_env [RunAsync, Destroy] ?w0 = Some w"
    and after: "animation w = None
      \<longrightarrow> (\<forall>ss'. map_option initDone_runs (run example_env ss' w) = Some (initDone_runs w))"
    by (elim exE conjE) (rule that)
  from w d have eq: "w = ?dead"
    by (simp only: option.inject)
  have dn: "animation ?dead = None"
    by simp
  from after [unfolded eq] dn
  have "\<forall>ss'. map_option initDone_runs (run example_env ss' ?dead) = Some (initDone_runs ?dead)"
    by (rule mp)
  then have "map_option initDone_runs (run example_env [RunMain 5] ?dead)
      = Some (initDone_runs ?dead)"
    by (rule spec)
  then have "map_option initDone_runs (run example_env ([RunAsync, Destroy] @ [RunMain 5]) ?w0)
      = Some (initDone_runs ?dead)"
    by (simp only: run_append d option.case)
  then have b: "map_option initDone_runs (run example_env ([RunAsync, Destroy] @ [RunMain 5]) ?w0)
      = Some []"
    by (simp only: world.simps)
  have c1: "Destroy \<notin> set [RunAsync, RunMain 5]"
    by simp
  have c3: "map_option animation (run example_env [RunAsync, Destroy] ?w0) = Some None"
    by (simp only: d option.map world.simps)
  show ?thesis
    by (intro conjI c1 a c3 b)
qed

end
